theory Spec2Isabelle
  imports Complex_Main
begin

section \<open>Example 15: hardware-aware training of an analog RNN\<close>

text \<open>
  A shallow embedding of \<^verbatim>\<open>examples/15_simple_lstm.py\<close>. The script is
  sequential glue code around a tensor library, an analog-layer library, an optimizer
  and a plotting library. What the script itself computes (slices, rolls, the batch
  loop, the stacking and transposition of the data set, the four forward passes, the
  training loop, the test and the drift sweep) is translated statement by statement.
  What the libraries compute (layer outputs, gradients, the optimizer update, the drift
  of the analog weights, the loss) enters as parameters: a record of operations over an
  abstract library state.

  Tensor elements are the library's 32-bit floats. The script never does arithmetic on
  them except for adding \<^verbatim>\<open>NOISE * rand\<close>; they are modelled as reals, and the
  sampled signal \<^verbatim>\<open>sin(x)*cos(0.5*x) + 0.5\<close> on the \<^verbatim>\<open>linspace\<close> grid is
  taken as a parameter: a function giving the float the library stores at each index.
\<close>

subsection \<open>Errors\<close>

text \<open>The exceptions that the tensor operations used by the script can raise.\<close>

datatype error =
    RuntimeError string
  | IndexError string

subsection \<open>Configuration constants (lines 43--58)\<close>

record config =
  NOISE :: real
  EPOCHS :: int
  BATCH_SIZE :: int
  SEQ_LEN :: int
  WITH_EMBEDDING :: bool
  WITH_BIDIR :: bool

definition script_config :: config where
  "script_config =
     \<lparr>NOISE = 0, EPOCHS = 100, BATCH_SIZE = 5, SEQ_LEN = 501,
      WITH_EMBEDDING = True, WITH_BIDIR = True\<rparr>"

subsection \<open>Tensors\<close>

text \<open>
  A one-dimensional tensor is a list. Tensors of rank two and three carry their shape
  and their elements in row-major order, so that a shape with a zero dimension is still
  a shape.
\<close>

record tensor2 =
  rows :: nat
  cols :: nat
  cells :: "real list"

record tensor3 =
  size0 :: nat
  size1 :: nat
  size2 :: nat
  entries :: "real list"

text \<open>Python slicing \<^verbatim>\<open>xs[start:stop]\<close>: a negative bound counts from the end, and
  both bounds are clamped to the length.\<close>

definition slice_bound :: "nat \<Rightarrow> int \<Rightarrow> nat" where
  "slice_bound n i = (if i < 0 then nat (int n + i) else min n (nat i))"

definition py_slice :: "'a list \<Rightarrow> int \<Rightarrow> int \<Rightarrow> 'a list" where
  "py_slice xs start stop =
     drop (slice_bound (length xs) start) (take (slice_bound (length xs) stop) xs)"

text \<open>\<^verbatim>\<open>range(n)\<close> for a Python integer: empty when \<open>n \<le> 0\<close>.\<close>

definition py_range :: "int \<Rightarrow> nat list" where
  "py_range n = [0..<nat n]"

text \<open>\<^verbatim>\<open>torch.roll(xs, shifts, dims=0)\<close> on a one-dimensional tensor: the element at
  index \<open>k\<close> moves to index \<open>(k + shifts) mod n\<close>. The library cuts the tensor at
  \<open>(n - shifts) mod n\<close> and swaps the two parts; an empty tensor is returned as it is.\<close>

definition roll :: "'a list \<Rightarrow> int \<Rightarrow> 'a list" where
  "roll xs shifts =
     (let n = length xs in
      if n = 0 then xs
      else let start = nat ((int n - shifts) mod int n)
           in drop start xs @ take start xs)"

text \<open>\<^verbatim>\<open>torch.rand(shape)\<close> draws from the global generator. The generator is the
  stream of numbers it has yet to produce; drawing \<open>n\<close> numbers removes them.\<close>

type_synonym rng = "nat \<Rightarrow> real"

definition rand :: "nat \<Rightarrow> rng \<Rightarrow> real list \<times> rng" where
  "rand n g = (map g [0..<n], (\<lambda>k. g (n + k)))"

text \<open>\<^verbatim>\<open>torch.stack(ts, dim=0)\<close> of one-dimensional tensors.\<close>

definition stack :: "real list list \<Rightarrow> error + tensor2" where
  "stack ts =
     (case ts of
        [] \<Rightarrow> Inl (RuntimeError ''stack expects a non-empty TensorList'')
      | t # ts' \<Rightarrow>
          if list_all (\<lambda>u. length u = length t) ts'
          then Inr \<lparr>rows = length ts, cols = length t, cells = concat ts\<rparr>
          else Inl (RuntimeError ''stack expects each tensor to be equal size''))"

text \<open>\<^verbatim>\<open>t.transpose(0, 1)\<close> of a rank-two tensor, and \<^verbatim>\<open>t.unsqueeze(2)\<close>.\<close>

definition transpose01 :: "tensor2 \<Rightarrow> tensor2" where
  "transpose01 t =
     \<lparr>rows = cols t, cols = rows t,
      cells = concat (map (\<lambda>j. map (\<lambda>i. cells t ! (i * cols t + j)) [0..<rows t])
                          [0..<cols t])\<rparr>"

definition unsqueeze2 :: "tensor2 \<Rightarrow> tensor3" where
  "unsqueeze2 t = \<lparr>size0 = rows t, size1 = cols t, size2 = 1, entries = cells t\<rparr>"

text \<open>Indexing \<^verbatim>\<open>t[i, j, k]\<close> and \<^verbatim>\<open>t[:, j, k]\<close> with non-negative indices.\<close>

definition item3 :: "tensor3 \<Rightarrow> nat \<Rightarrow> nat \<Rightarrow> nat \<Rightarrow> error + real" where
  "item3 t i j k =
     (if i < size0 t \<and> j < size1 t \<and> k < size2 t
      then Inr (entries t ! ((i * size1 t + j) * size2 t + k))
      else Inl (IndexError ''index out of range''))"

definition select_col :: "tensor3 \<Rightarrow> nat \<Rightarrow> nat \<Rightarrow> error + real list" where
  "select_col t j k =
     (if j < size1 t \<and> k < size2 t
      then Inr (map (\<lambda>i. entries t ! ((i * size1 t + j) * size2 t + k)) [0..<size0 t])
      else Inl (IndexError ''index out of range''))"

subsection \<open>The data set (lines 90--100)\<close>

text \<open>
  \<^verbatim>\<open>x = torch.linspace(0, 8*np.pi, SEQ_LEN); y = torch.sin(x)*torch.cos(0.5*x) + 0.5\<close>.
  The library refuses a negative number of steps. \<open>smp k\<close> is the float stored at
  index \<open>k\<close> of \<^verbatim>\<open>y\<close>.
\<close>

definition signal :: "(nat \<Rightarrow> real) \<Rightarrow> int \<Rightarrow> error + real list" where
  "signal smp L =
     (if L < 0 then Inl (RuntimeError ''number of steps must be non-negative'')
      else Inr (map smp [0..<nat L]))"

text \<open>One summand of lines 97 and 98:
  \<^verbatim>\<open>torch.roll(y_1d, shifts=100*i, dims=0) + NOISE*torch.rand(y_1d.shape)\<close>.\<close>

definition batch_item :: "real \<Rightarrow> real list \<Rightarrow> nat \<Rightarrow> real list \<Rightarrow> real list" where
  "batch_item noise y_1d i r = map2 (+) (roll y_1d (100 * int i)) (map ((*) noise) r)"

text \<open>The loop of lines 96--98 over the remaining batch indices.\<close>

fun batch_loop ::
  "real \<Rightarrow> real list \<Rightarrow> real list \<Rightarrow> nat list \<Rightarrow> rng \<Rightarrow> real list list \<Rightarrow> real list list
   \<Rightarrow> (real list list \<times> real list list) \<times> rng" where
  "batch_loop noise y_in_1d y_out_1d [] g y_in_2d y_out_2d = ((y_in_2d, y_out_2d), g)"
| "batch_loop noise y_in_1d y_out_1d (i # is) g y_in_2d y_out_2d =
     (let (r_in, g1) = rand (length y_in_1d) g;
          (r_out, g2) = rand (length y_out_1d) g1
      in batch_loop noise y_in_1d y_out_1d is g2
           (y_in_2d @ [batch_item noise y_in_1d i r_in])
           (y_out_2d @ [batch_item noise y_out_1d i r_out]))"

definition make_dataset ::
  "config \<Rightarrow> (nat \<Rightarrow> real) \<Rightarrow> rng \<Rightarrow> error + (tensor3 \<times> tensor3) \<times> rng" where
  "make_dataset cfg smp g =
     (case signal smp (SEQ_LEN cfg) of
        Inl e \<Rightarrow> Inl e
      | Inr y \<Rightarrow>
          let y_in_1d = py_slice y 0 (SEQ_LEN cfg - 1);
              y_out_1d = py_slice y 1 (SEQ_LEN cfg);
              ((y_in_2d, y_out_2d), g') =
                 batch_loop (NOISE cfg) y_in_1d y_out_1d (py_range (BATCH_SIZE cfg)) g [] []
          in (case stack y_in_2d of
                Inl e \<Rightarrow> Inl e
              | Inr a \<Rightarrow>
                  (case stack y_out_2d of
                     Inl e \<Rightarrow> Inl e
                   | Inr b \<Rightarrow>
                       Inr ((unsqueeze2 (transpose01 a), unsqueeze2 (transpose01 b)), g'))))"

subsection \<open>The libraries\<close>

text \<open>
  The layers of the network that was built, the optimizer, the loss and the drift of the
  analog weights belong to the tensor and analog-layer libraries. They act on a library
  state \<open>'m\<close> (weights, gradients, the recorded computation graph, the training flag,
  the noise generators); \<open>'s\<close> is the type of a recurrent state. A call of a library
  or of the file system is taken to return: an exception raised inside one ends the
  run and is not part of this model.
\<close>

record ('m, 's) library =
  dropout :: "tensor3 \<Rightarrow> 'm \<Rightarrow> tensor3 \<times> 'm"
  embedding :: "tensor3 \<Rightarrow> 'm \<Rightarrow> tensor3 \<times> 'm"
  rnn :: "tensor3 \<Rightarrow> 's option \<Rightarrow> 'm \<Rightarrow> (tensor3 \<times> 's) \<times> 'm"
  decoder :: "tensor3 \<Rightarrow> 'm \<Rightarrow> tensor3 \<times> 'm"
  zero_grad :: "'m \<Rightarrow> 'm"
  criterion :: "tensor3 \<Rightarrow> tensor3 \<Rightarrow> 'm \<Rightarrow> real \<times> 'm"
  backward :: "'m \<Rightarrow> 'm"
  optimizer_step :: "'m \<Rightarrow> 'm"
  eval_mode :: "'m \<Rightarrow> 'm"
  drift_analog_weights :: "real \<Rightarrow> 'm \<Rightarrow> 'm"

subsection \<open>The four networks (lines 105--187)\<close>

datatype network =
    AnalogBidirRNNNetwork
  | AnalogBidirRNNNetwork_noEmbedding
  | AnalogRNNNetwork
  | AnalogRNNNetwork_noEmbedding

text \<open>The \<^verbatim>\<open>forward\<close> method of each class; \<^verbatim>\<open>in_states\<close> defaults to
  \<^verbatim>\<open>None\<close>.\<close>

fun forward ::
  "network \<Rightarrow> ('m, 's) library \<Rightarrow> tensor3 \<Rightarrow> 's option \<Rightarrow> 'm \<Rightarrow> (tensor3 \<times> 's) \<times> 'm" where
  "forward AnalogBidirRNNNetwork lib x_in in_states m =
     (let (e, m1) = embedding lib x_in m;
          (embed, m2) = dropout lib e m1;
          ((out, out_states), m3) = rnn lib embed in_states m2;
          (d, m4) = decoder lib out m3;
          (out', m5) = dropout lib d m4
      in ((out', out_states), m5))"
| "forward AnalogBidirRNNNetwork_noEmbedding lib x_in in_states m =
     (let ((out, out_states), m1) = rnn lib x_in in_states m;
          (d, m2) = decoder lib out m1;
          (out', m3) = dropout lib d m2
      in ((out', out_states), m3))"
| "forward AnalogRNNNetwork lib x_in in_states m =
     (let (e, m1) = embedding lib x_in m;
          (embed, m2) = dropout lib e m1;
          ((out, out_states), m3) = rnn lib embed in_states m2;
          (d, m4) = decoder lib out m3;
          (out', m5) = dropout lib d m4
      in ((out', out_states), m5))"
| "forward AnalogRNNNetwork_noEmbedding lib x_in in_states m =
     (let ((out, out_states), m1) = rnn lib x_in in_states m;
          (d, m2) = decoder lib out m1;
          (out', m3) = dropout lib d m2
      in ((out', out_states), m3))"

text \<open>Lines 178--187.\<close>

definition select_model :: "config \<Rightarrow> network" where
  "select_model cfg =
     (if WITH_EMBEDDING cfg
      then (if WITH_BIDIR cfg then AnalogBidirRNNNetwork else AnalogRNNNetwork)
      else (if WITH_BIDIR cfg then AnalogBidirRNNNetwork_noEmbedding
            else AnalogRNNNetwork_noEmbedding))"


subsection \<open>The state of a run\<close>

text \<open>A path is its list of components. The calls that the script makes to the
  operating system, the optimizer, the model, the loss, the console and the plotting
  library are logged in order, a call to the model or the loss with its result.\<close>

type_synonym path = "string list"

datatype label = Label string | Label_t real

datatype call =
    Makedirs path
  | Zero_grad
  | Model_call tensor3 tensor3
  | Criterion tensor3 tensor3 real
  | Print_train nat real
  | Print_test real
  | Backward
  | Step
  | Eval
  | Drift real
  | Figure
  | Plot "real list" "string option" "label option"
  | Xlabel string
  | Ylabel string
  | Ylim real real
  | Legend "string list option"
  | Savefig path
  | Close

text \<open>The variables \<^verbatim>\<open>y_in\<close>, \<^verbatim>\<open>y_out\<close> and \<^verbatim>\<open>losses\<close> of the script, the
  library state, the log, the directories that exist and the files written so far.\<close>

record 'm state =
  y_in :: tensor3
  y_out :: tensor3
  losses :: "real list"
  world :: 'm
  calls :: "call list"
  dirs :: "path set"
  files :: "path list"

definition emit :: "call \<Rightarrow> 'm state \<Rightarrow> 'm state" where
  "emit c s = s\<lparr>calls := calls s @ [c]\<rparr>"

definition call_zero_grad :: "('m, 's) library \<Rightarrow> 'm state \<Rightarrow> 'm state" where
  "call_zero_grad lib s = emit Zero_grad (s\<lparr>world := zero_grad lib (world s)\<rparr>)"

definition call_backward :: "('m, 's) library \<Rightarrow> 'm state \<Rightarrow> 'm state" where
  "call_backward lib s = emit Backward (s\<lparr>world := backward lib (world s)\<rparr>)"

definition call_step :: "('m, 's) library \<Rightarrow> 'm state \<Rightarrow> 'm state" where
  "call_step lib s = emit Step (s\<lparr>world := optimizer_step lib (world s)\<rparr>)"

definition call_eval :: "('m, 's) library \<Rightarrow> 'm state \<Rightarrow> 'm state" where
  "call_eval lib s = emit Eval (s\<lparr>world := eval_mode lib (world s)\<rparr>)"

definition call_drift :: "('m, 's) library \<Rightarrow> real \<Rightarrow> 'm state \<Rightarrow> 'm state" where
  "call_drift lib t s = emit (Drift t) (s\<lparr>world := drift_analog_weights lib t (world s)\<rparr>)"

text \<open>\<^verbatim>\<open>model(x)\<close> runs the \<^verbatim>\<open>forward\<close> method of the network with no prior state.\<close>

definition call_model ::
  "('m, 's) library \<Rightarrow> network \<Rightarrow> tensor3 \<Rightarrow> 'm state \<Rightarrow> (tensor3 \<times> 's) \<times> 'm state" where
  "call_model lib net x s =
     (let ((p, st), m) = forward net lib x None (world s)
      in ((p, st), emit (Model_call x p) (s\<lparr>world := m\<rparr>)))"

definition call_criterion ::
  "('m, 's) library \<Rightarrow> tensor3 \<Rightarrow> tensor3 \<Rightarrow> 'm state \<Rightarrow> real \<times> 'm state" where
  "call_criterion lib p t s =
     (let (l, m) = criterion lib p t (world s)
      in (l, emit (Criterion p t l) (s\<lparr>world := m\<rparr>)))"

text \<open>\<^verbatim>\<open>os.makedirs(p, exist_ok=True)\<close> creates \<open>p\<close> and every missing ancestor.
  \<^verbatim>\<open>plt.savefig(p)\<close> with a name without extension writes the file \<open>p.ext\<close>,
  \<open>ext\<close> being the default image format of the plotting library.\<close>

definition makedirs :: "path \<Rightarrow> path set \<Rightarrow> path set" where
  "makedirs p ds = ds \<union> set (map (\<lambda>k. take k p) [1..<Suc (length p)])"

definition with_ext :: "string \<Rightarrow> path \<Rightarrow> path" where
  "with_ext ext p = butlast p @ [last p @ ''.'' @ ext]"

definition savefig :: "string \<Rightarrow> path \<Rightarrow> 'm state \<Rightarrow> 'm state" where
  "savefig ext p s = emit (Savefig p) (s\<lparr>files := files s @ [with_ext ext p]\<rparr>)"

subsection \<open>Training (lines 194--213)\<close>

text \<open>The body of the training loop for epoch \<open>i\<close>.\<close>

definition epoch :: "('m, 's) library \<Rightarrow> network \<Rightarrow> nat \<Rightarrow> 'm state \<Rightarrow> 'm state" where
  "epoch lib net i s0 =
     (let s1 = call_zero_grad lib s0;
          ((pred, states), s2) = call_model lib net (y_in s1) s1;
          (loss, s3) = call_criterion lib pred (y_out s2) s2;
          s4 = emit (Print_train i (exp loss)) s3;
          s5 = call_backward lib s4;
          s6 = call_step lib s5
      in s6\<lparr>losses := losses s6 @ [loss]\<rparr>)"

fun train_loop :: "('m, 's) library \<Rightarrow> network \<Rightarrow> nat list \<Rightarrow> 'm state \<Rightarrow> 'm state" where
  "train_loop lib net [] s = s"
| "train_loop lib net (i # is) s = train_loop lib net is (epoch lib net i s)"

text \<open>Lines 194--205: the loss history starts empty.\<close>

definition train :: "('m, 's) library \<Rightarrow> network \<Rightarrow> int \<Rightarrow> 'm state \<Rightarrow> 'm state" where
  "train lib net E s = train_loop lib net (py_range E) (s\<lparr>losses := []\<rparr>)"

definition plot_training :: "string \<Rightarrow> path \<Rightarrow> 'm state \<Rightarrow> 'm state" where
  "plot_training ext RESULTS s0 =
     (let s1 = emit Figure s0;
          s2 = emit (Plot (map exp (losses s1)) (Some ''-b'') None) s1;
          s3 = emit (Xlabel ''# Epochs'') s2;
          s4 = emit (Ylabel ''Perplexity [1]'') s3;
          s5 = emit (Ylim 1.0 1.4) s4;
          s6 = savefig ext (RESULTS @ [''train_perplexity'']) s5
      in emit Close s6)"

subsection \<open>Test (lines 216--226)\<close>

definition test_phase ::
  "('m, 's) library \<Rightarrow> network \<Rightarrow> string \<Rightarrow> path \<Rightarrow> 'm state \<Rightarrow> error + 'm state" where
  "test_phase lib net ext RESULTS s0 =
     (let s1 = call_eval lib s0;
          ((pred, states), s2) = call_model lib net (y_in s1) s1;
          (loss, s3) = call_criterion lib pred (y_out s2) s2;
          s4 = emit (Print_test (exp loss)) s3;
          s5 = emit Figure s4
      in case select_col (y_out s5) 0 0 of
           Inl e \<Rightarrow> Inl e
         | Inr truth \<Rightarrow>
             let s6 = emit (Plot truth (Some ''-b'') None) s5
             in case select_col pred 0 0 of
                  Inl e \<Rightarrow> Inl e
                | Inr c \<Rightarrow>
                    let s7 = emit (Plot c (Some ''-g'') None) s6;
                        s8 = emit (Legend (Some [''truth'', ''prediction''])) s7;
                        s9 = savefig ext (RESULTS @ [''test'']) s8
                    in Inr (emit Close s9))"

subsection \<open>Drift test (lines 229--237)\<close>

text \<open>The body of the loop over the inference times, and the loop.\<close>

definition drift_step ::
  "('m, 's) library \<Rightarrow> network \<Rightarrow> real \<Rightarrow> 'm state \<Rightarrow> error + 'm state" where
  "drift_step lib net t_inference s0 =
     (let s1 = call_drift lib t_inference s0;
          ((pred_drift, states), s2) = call_model lib net (y_in s1) s1
      in case select_col pred_drift 0 0 of
           Inl e \<Rightarrow> Inl e
         | Inr c \<Rightarrow> Inr (emit (Plot c None (Some (Label_t t_inference))) s2))"

fun drift_loop ::
  "('m, 's) library \<Rightarrow> network \<Rightarrow> real list \<Rightarrow> 'm state \<Rightarrow> error + 'm state" where
  "drift_loop lib net [] s = Inr s"
| "drift_loop lib net (t # ts) s =
     (case drift_step lib net t s of
        Inl e \<Rightarrow> Inl e
      | Inr s' \<Rightarrow> drift_loop lib net ts s')"

definition drift_test ::
  "('m, 's) library \<Rightarrow> network \<Rightarrow> string \<Rightarrow> path \<Rightarrow> 'm state \<Rightarrow> error + 'm state" where
  "drift_test lib net ext RESULTS s0 =
     (let s1 = emit Figure s0
      in case select_col (y_out s1) 0 0 of
           Inl e \<Rightarrow> Inl e
         | Inr truth \<Rightarrow>
             let s2 = emit (Plot truth (Some ''-b'') (Some (Label ''truth''))) s1
             in case drift_loop lib net [0, 1, 20, 1000, 100000] s2 of
                  Inl e \<Rightarrow> Inl e
                | Inr s3 \<Rightarrow>
                    let s4 = emit (Legend None) s3;
                        s5 = savefig ext (RESULTS @ [''drift'']) s4
                    in Inr (emit Close s5))"

subsection \<open>The script\<close>

text \<open>
  \<open>cwd\<close> is the working directory and \<open>ext\<close> the default image format; \<open>m0\<close> is the
  library state once the selected network, the optimizer and the loss have been built
  (lines 178--191), and \<open>ds\<close> the directories that exist when the script starts.
\<close>

definition run ::
  "config \<Rightarrow> path \<Rightarrow> string \<Rightarrow> ('m, 's) library \<Rightarrow> (nat \<Rightarrow> real) \<Rightarrow> rng \<Rightarrow> 'm \<Rightarrow> path set
   \<Rightarrow> error + 'm state" where
  "run cfg cwd ext lib smp g m0 ds =
     (let RESULTS = cwd @ [''results'', ''RNN''];
          ds' = makedirs RESULTS ds
      in case make_dataset cfg smp g of
           Inl e \<Rightarrow> Inl e
         | Inr ((yi, yo), g') \<Rightarrow>
             let net = select_model cfg;
                 s0 = \<lparr>y_in = yi, y_out = yo, losses = [], world = m0,
                       calls = [Makedirs RESULTS], dirs = ds', files = []\<rparr>;
                 s1 = train lib net (EPOCHS cfg) s0;
                 s2 = plot_training ext RESULTS s1
             in case test_phase lib net ext RESULTS s2 of
                  Inl e \<Rightarrow> Inl e
                | Inr s3 \<Rightarrow> drift_test lib net ext RESULTS s3)"


subsection \<open>Notions used to state the properties\<close>

text \<open>The shape of a tensor.\<close>

definition dims :: "tensor3 \<Rightarrow> nat \<times> nat \<times> nat" where
  "dims t = (size0 t, size1 t, size2 t)"

text \<open>The prediction and the loss that an epoch started in state \<open>s\<close> computes: the
  forward pass runs on the library state of \<open>s\<close> with its gradients cleared, before the
  gradients of this epoch are propagated and before the optimizer updates the weights.\<close>

definition epoch_pred :: "('m, 's) library \<Rightarrow> network \<Rightarrow> 'm state \<Rightarrow> tensor3" where
  "epoch_pred lib net s = fst (fst (forward net lib (y_in s) None (zero_grad lib (world s))))"

definition epoch_loss :: "('m, 's) library \<Rightarrow> network \<Rightarrow> 'm state \<Rightarrow> real" where
  "epoch_loss lib net s =
     fst (criterion lib (epoch_pred lib net s) (y_out s)
            (snd (forward net lib (y_in s) None (zero_grad lib (world s)))))"

text \<open>The calls that epoch \<open>i\<close> started in state \<open>s\<close> makes, in order.\<close>

definition epoch_calls :: "('m, 's) library \<Rightarrow> network \<Rightarrow> nat \<Rightarrow> 'm state \<Rightarrow> call list" where
  "epoch_calls lib net i s =
     [Zero_grad,
      Model_call (y_in s) (epoch_pred lib net s),
      Criterion (epoch_pred lib net s) (y_out s) (epoch_loss lib net s),
      Print_train i (exp (epoch_loss lib net s)),
      Backward,
      Step]"

text \<open>Mean squared error of two tensors with the same number of elements.\<close>

definition mse_loss :: "tensor3 \<Rightarrow> tensor3 \<Rightarrow> real" where
  "mse_loss p t =
     sum_list (map2 (\<lambda>a b. (a - b)\<^sup>2) (entries p) (entries t)) / real (length (entries t))"

text \<open>
  The contract of the libraries that the properties of the loops rest on: the network
  maps an input of shape \<open>(T, B, _)\<close> to a prediction of shape \<open>(T, B, 1)\<close> with
  \<open>T * B\<close> elements, and the criterion is the mean squared error of a prediction and a
  target of the same shape that have elements.
\<close>

definition predicts_per_step :: "('m, 's) library \<Rightarrow> network \<Rightarrow> bool" where
  "predicts_per_step lib net =
     (\<forall>x st m. dims (fst (fst (forward net lib x st m))) = (size0 x, size1 x, 1) \<and>
        length (entries (fst (fst (forward net lib x st m)))) = size0 x * size1 x)"


text \<open>Calls that write to the file system, calls that print, calls of the model; and
  a call that, if it is a call of the model or of the loss, has \<open>yi\<close> as its input or
  \<open>yo\<close> as its target.\<close>

fun writes_fs :: "call \<Rightarrow> bool" where
  "writes_fs (Makedirs p) = True"
| "writes_fs (Savefig p) = True"
| "writes_fs c = False"

fun is_print_train :: "call \<Rightarrow> bool" where
  "is_print_train (Print_train i v) = True"
| "is_print_train c = False"

fun is_model_call :: "call \<Rightarrow> bool" where
  "is_model_call (Model_call x p) = True"
| "is_model_call c = False"

fun on_dataset :: "tensor3 \<Rightarrow> tensor3 \<Rightarrow> call \<Rightarrow> bool" where
  "on_dataset yi yo (Model_call x p) = (x = yi)"
| "on_dataset yi yo (Criterion p t l) = (t = yo)"
| "on_dataset yi yo c = True"

subsection \<open>A small instance of the library interface\<close>

text \<open>
  Used to evaluate the definitions on concrete inputs. The library state is one weight
  and the training flag. Dropout doubles every element while training (ratio one half,
  nothing dropped) and is the identity in evaluation mode; the recurrent layer scales by
  the weight; the decoder reads the first feature and adds a bias of one; the optimizer
  halves the weight; a drift over \<open>t\<close> seconds divides it by \<open>1 + t\<close>.
\<close>

record toy =
  weight :: real
  training :: bool

definition scale :: "real \<Rightarrow> tensor3 \<Rightarrow> tensor3" where
  "scale c x = x\<lparr>entries := map ((*) c) (entries x)\<rparr>"

definition toy_decoder :: "tensor3 \<Rightarrow> tensor3" where
  "toy_decoder x =
     \<lparr>size0 = size0 x, size1 = size1 x, size2 = 1,
      entries = map (\<lambda>i. entries x ! (i * size2 x) + 1) [0..<size0 x * size1 x]\<rparr>"

definition toy_library :: "(toy, unit) library" where
  "toy_library =
     \<lparr>dropout = (\<lambda>x m. (if training m then scale 2 x else x, m)),
      embedding = (\<lambda>x m. (x, m)),
      rnn = (\<lambda>x st m. ((scale (weight m) x, ()), m)),
      decoder = (\<lambda>x m. (toy_decoder x, m)),
      zero_grad = (\<lambda>m. m),
      criterion = (\<lambda>p t m. (mse_loss p t, m)),
      backward = (\<lambda>m. m),
      optimizer_step = (\<lambda>m. m\<lparr>weight := weight m / 2\<rparr>),
      eval_mode = (\<lambda>m. m\<lparr>training := False\<rparr>),
      drift_analog_weights = (\<lambda>t m. m\<lparr>weight := weight m / (1 + t)\<rparr>)\<rparr>"

definition toy_state :: "toy state" where
  "toy_state =
     \<lparr>y_in = \<lparr>size0 = 1, size1 = 1, size2 = 1, entries = [1]\<rparr>,
      y_out = \<lparr>size0 = 1, size1 = 1, size2 = 1, entries = [3]\<rparr>,
      losses = [], world = \<lparr>weight = 1, training = True\<rparr>,
      calls = [], dirs = {}, files = []\<rparr>"

section \<open>Properties of the data set\<close>

subsection \<open>Rolls, slices and stacked tensors\<close>

lemma length_roll: "length (roll xs s) = length xs"
proof (cases "xs = []")
  case True then show ?thesis by (simp add: roll_def)
next
  case False
  then have "nat ((int (length xs) - s) mod int (length xs)) \<le> length xs"
    by (simp add: nat_le_iff less_imp_le)
  with False show ?thesis by (simp add: roll_def Let_def)
qed

lemma roll_nth:
  assumes "k < length xs"
  shows "roll xs s ! k = xs ! nat ((int k - s) mod int (length xs))"
proof -
  let ?n = "length xs"
  have n: "0 < ?n" using assms by (cases xs) simp_all
  define st where "st = nat ((int ?n - s) mod int ?n)"
  have st: "st < ?n" using n by (simp add: st_def nat_less_iff)
  have r: "roll xs s = drop st xs @ take st xs"
    using n by (simp add: roll_def Let_def st_def)
  have "(drop st xs @ take st xs) ! k = xs ! ((st + k) mod ?n)"
    using st assms by (simp add: nth_append mod_if) (auto simp: add.commute less_diff_conv)
  moreover have "int ((st + k) mod ?n) = (int k - s) mod int ?n"
  proof -
    have "int ((st + k) mod ?n) = (int st + int k) mod int ?n"
      by (simp add: zmod_int)
    also have "int st = (int ?n - s) mod int ?n" using n by (simp add: st_def)
    also have "((int ?n - s) mod int ?n + int k) mod int ?n = (int ?n - s + int k) mod int ?n"
      by (rule mod_add_left_eq)
    also have "int ?n - s + int k = (int k - s) + int ?n" by simp
    also have "((int k - s) + int ?n) mod int ?n = (int k - s) mod int ?n"
      by (rule mod_add_self2)
    finally show ?thesis .
  qed
  ultimately show ?thesis using r by (metis nat_int)
qed

lemma batch_item_noise0: "length r = length y \<Longrightarrow> batch_item 0 y i r = roll y (100 * int i)"
  by (simp add: batch_item_def length_roll map2_map_map list_eq_iff_nth_eq)

lemma batch_loop_noise0:
  "fst (batch_loop 0 yi yo is g a b) =
     (a @ map (\<lambda>i. roll yi (100 * int i)) is, b @ map (\<lambda>i. roll yo (100 * int i)) is)"
  by (induction "is" arbitrary: g a b)
     (simp_all add: rand_def batch_item_noise0 split: prod.splits)

lemma concat_uniform_nth:
  "(\<And>xs. xs \<in> set xss \<Longrightarrow> length xs = n) \<Longrightarrow> j < length xss \<Longrightarrow> i < n \<Longrightarrow>
   concat xss ! (j * n + i) = xss ! j ! i"
proof (induction xss arbitrary: j)
  case Nil then show ?case by simp
next
  case (Cons a xss)
  show ?case
  proof (cases j)
    case 0 then show ?thesis using Cons.prems by (simp add: nth_append)
  next
    case (Suc j')
    have "length a = n" using Cons.prems(1) by simp
    then show ?thesis using Suc Cons by (simp add: nth_append)
  qed
qed

lemma slice_in: "0 \<le> L \<Longrightarrow> py_slice (map smp [0..<nat L]) 0 (L - 1) = map smp [0..<nat (L - 1)]"
  by (auto simp: py_slice_def slice_bound_def take_map min_def nat_diff_distrib)

lemma slice_out: "0 \<le> L \<Longrightarrow> py_slice (map smp [0..<nat L]) 1 L = map (\<lambda>k. smp (Suc k)) [0..<nat (L - 1)]"
  by (auto simp: py_slice_def slice_bound_def drop_map map_upt_Suc nat_diff_distrib list_eq_iff_nth_eq)

lemma stack_uniform:
  "rs \<noteq> [] \<Longrightarrow> (\<And>r. r \<in> set rs \<Longrightarrow> length r = n) \<Longrightarrow>
   stack rs = Inr \<lparr>rows = length rs, cols = n, cells = concat rs\<rparr>"
  by (cases rs) (auto simp: stack_def list_all_iff)

lemma transposed_cell:
  assumes "\<And>r. r \<in> set rs \<Longrightarrow> length r = n" "t < n" "b < length rs"
  shows "entries (unsqueeze2 (transpose01 \<lparr>rows = length rs, cols = n, cells = concat rs\<rparr>))
           ! (t * length rs + b) = rs ! b ! t"
proof -
  let ?B = "length rs"
  let ?rows = "map (\<lambda>j. map (\<lambda>i. concat rs ! (i * n + j)) [0..<?B]) [0..<n]"
  have "concat ?rows ! (t * ?B + b) = ?rows ! t ! b"
    using assms by (intro concat_uniform_nth) auto
  also have "\<dots> = concat rs ! (b * n + t)" using assms by simp
  also have "\<dots> = rs ! b ! t" using assms by (intro concat_uniform_nth) auto
  finally show ?thesis by (simp add: unsqueeze2_def transpose01_def)
qed

lemma make_dataset_noise0:
  assumes L: "0 \<le> SEQ_LEN cfg" and B: "1 \<le> BATCH_SIZE cfg" and N: "NOISE cfg = 0"
  shows "\<exists>g'. make_dataset cfg smp g =
    Inr ((unsqueeze2 (transpose01
            \<lparr>rows = nat (BATCH_SIZE cfg), cols = nat (SEQ_LEN cfg - 1),
             cells = concat (map (\<lambda>i. roll (map smp [0..<nat (SEQ_LEN cfg - 1)]) (100 * int i))
                              [0..<nat (BATCH_SIZE cfg)])\<rparr>),
          unsqueeze2 (transpose01
            \<lparr>rows = nat (BATCH_SIZE cfg), cols = nat (SEQ_LEN cfg - 1),
             cells = concat (map (\<lambda>i. roll (map (\<lambda>k. smp (Suc k)) [0..<nat (SEQ_LEN cfg - 1)]) (100 * int i))
                              [0..<nat (BATCH_SIZE cfg)])\<rparr>)), g')"
proof -
  let ?n = "nat (SEQ_LEN cfg - 1)"
  let ?yi = "map smp [0..<?n]"
  let ?yo = "map (\<lambda>k. smp (Suc k)) [0..<?n]"
  let ?is = "[0..<nat (BATCH_SIZE cfg)]"
  obtain p g' where bl: "batch_loop 0 ?yi ?yo ?is g [] [] = (p, g')"
    by (cases "batch_loop 0 ?yi ?yo ?is g [] []") auto
  have p: "p = (map (\<lambda>i. roll ?yi (100 * int i)) ?is, map (\<lambda>i. roll ?yo (100 * int i)) ?is)"
    using batch_loop_noise0 [of ?yi ?yo ?is g "[]" "[]"] bl by simp
  have ne: "?is \<noteq> []" using B by simp
  have len: "length r = ?n" if "r \<in> set (map (\<lambda>i. roll ys (100 * int i)) ?is)" "length ys = ?n"
    for r ys using that by (auto simp: length_roll)
  have s1: "stack (map (\<lambda>i. roll ?yi (100 * int i)) ?is) =
      Inr \<lparr>rows = nat (BATCH_SIZE cfg), cols = ?n, cells = concat (map (\<lambda>i. roll ?yi (100 * int i)) ?is)\<rparr>"
    using stack_uniform [of "map (\<lambda>i. roll ?yi (100 * int i)) ?is" ?n, OF _ len] ne
    by simp
  have s2: "stack (map (\<lambda>i. roll ?yo (100 * int i)) ?is) =
      Inr \<lparr>rows = nat (BATCH_SIZE cfg), cols = ?n, cells = concat (map (\<lambda>i. roll ?yo (100 * int i)) ?is)\<rparr>"
    using stack_uniform [of "map (\<lambda>i. roll ?yo (100 * int i)) ?is" ?n, OF _ len] ne
    by simp
  show ?thesis
    using L N bl p s1 s2
    by (simp add: make_dataset_def signal_def slice_in slice_out py_range_def)
qed

lemma roll_zero: "roll xs 0 = xs"
  by (simp add: roll_def Let_def)

lemma roll_mod: "roll xs (s mod int (length xs)) = roll xs s"
  by (simp add: roll_def Let_def mod_minus_eq)

lemma dataset_built:
  assumes "make_dataset cfg smp g = Inr ((yi, yo), g')"
  shows "0 \<le> SEQ_LEN cfg \<and> 1 \<le> BATCH_SIZE cfg"
proof -
  have "0 \<le> SEQ_LEN cfg"
    using assms by (auto simp: make_dataset_def signal_def split: if_splits)
  moreover have "1 \<le> BATCH_SIZE cfg"
  proof (rule ccontr)
    assume "\<not> 1 \<le> BATCH_SIZE cfg"
    then have "py_range (BATCH_SIZE cfg) = []" by (simp add: py_range_def)
    then show False
      using assms by (auto simp: make_dataset_def signal_def stack_def split: if_splits)
  qed
  ultimately show ?thesis ..
qed

lemma dataset_shape:
  assumes "make_dataset cfg smp g = Inr ((yi, yo), g')" "NOISE cfg = 0"
  shows "size0 yi = nat (SEQ_LEN cfg - 1)" "size1 yi = nat (BATCH_SIZE cfg)" "size2 yi = 1"
        "size0 yo = nat (SEQ_LEN cfg - 1)" "size1 yo = nat (BATCH_SIZE cfg)" "size2 yo = 1"
  using make_dataset_noise0 [of cfg smp g] dataset_built [OF assms(1)] assms
  by (auto simp: unsqueeze2_def transpose01_def)

lemma dataset_entry:
  assumes D: "make_dataset cfg smp g = Inr ((yi, yo), g')" and N: "NOISE cfg = 0"
    and t: "t < nat (SEQ_LEN cfg - 1)" and b: "b < nat (BATCH_SIZE cfg)"
  shows "entries yi ! (t * nat (BATCH_SIZE cfg) + b) =
           smp (nat ((int t - 100 * int b) mod (SEQ_LEN cfg - 1)))"
    and "entries yo ! (t * nat (BATCH_SIZE cfg) + b) =
           smp (Suc (nat ((int t - 100 * int b) mod (SEQ_LEN cfg - 1))))"
proof -
  let ?n = "nat (SEQ_LEN cfg - 1)"
  let ?B = "nat (BATCH_SIZE cfg)"
  let ?is = "[0..<?B]"
  have n: "int ?n = SEQ_LEN cfg - 1" using t by simp
  have k: "nat ((int t - 100 * int b) mod (SEQ_LEN cfg - 1)) < ?n"
    using t by (simp add: nat_less_iff)
  have cell: "entries (unsqueeze2 (transpose01
            \<lparr>rows = ?B, cols = ?n,
             cells = concat (map (\<lambda>i. roll (map f [0..<?n]) (100 * int i)) ?is)\<rparr>))
           ! (t * ?B + b) = f (nat ((int t - 100 * int b) mod (SEQ_LEN cfg - 1)))" for f
  proof -
    let ?rs = "map (\<lambda>i. roll (map f [0..<?n]) (100 * int i)) ?is"
    have "entries (unsqueeze2 (transpose01 \<lparr>rows = length ?rs, cols = ?n, cells = concat ?rs\<rparr>))
            ! (t * length ?rs + b) = ?rs ! b ! t"
      using t b by (intro transposed_cell) (auto simp: length_roll)
    also have "\<dots> = roll (map f [0..<?n]) (100 * int b) ! t" using b by simp
    also have "\<dots> = map f [0..<?n] ! nat ((int t - 100 * int b) mod int ?n)"
      using t by (simp add: roll_nth)
    also have "\<dots> = f (nat ((int t - 100 * int b) mod (SEQ_LEN cfg - 1)))"
      using k n by simp
    finally show ?thesis by simp
  qed
  from make_dataset_noise0 [of cfg smp g] dataset_built [OF D] N D
  have eq: "yi = unsqueeze2 (transpose01
            \<lparr>rows = ?B, cols = ?n,
             cells = concat (map (\<lambda>i. roll (map smp [0..<?n]) (100 * int i)) ?is)\<rparr>)"
    "yo = unsqueeze2 (transpose01
            \<lparr>rows = ?B, cols = ?n,
             cells = concat (map (\<lambda>i. roll (map (\<lambda>k. smp (Suc k)) [0..<?n]) (100 * int i)) ?is)\<rparr>)"
    by auto
  show "entries yi ! (t * ?B + b) = smp (nat ((int t - 100 * int b) mod (SEQ_LEN cfg - 1)))"
    unfolding eq by (rule cell)
  show "entries yo ! (t * ?B + b) = smp (Suc (nat ((int t - 100 * int b) mod (SEQ_LEN cfg - 1))))"
    unfolding eq by (rule cell)
qed

lemma dataset_item:
  assumes "make_dataset cfg smp g = Inr ((yi, yo), g')" "NOISE cfg = 0"
    "t < nat (SEQ_LEN cfg - 1)" "b < nat (BATCH_SIZE cfg)"
  shows "item3 yi t b 0 = Inr (smp (nat ((int t - 100 * int b) mod (SEQ_LEN cfg - 1))))"
    and "item3 yo t b 0 = Inr (smp (Suc (nat ((int t - 100 * int b) mod (SEQ_LEN cfg - 1)))))"
  using dataset_entry [OF assms] dataset_shape [OF assms(1,2)] assms(3,4)
  by (simp_all add: item3_def)

lemma dataset_col:
  assumes "make_dataset cfg smp g = Inr ((yi, yo), g')" "NOISE cfg = 0"
    "b < nat (BATCH_SIZE cfg)"
  shows "select_col yi b 0 = Inr (roll (map smp [0..<nat (SEQ_LEN cfg - 1)]) (100 * int b))"
    and "select_col yo b 0 = Inr (roll (map (\<lambda>k. smp (Suc k)) [0..<nat (SEQ_LEN cfg - 1)]) (100 * int b))"
proof -
  let ?n = "nat (SEQ_LEN cfg - 1)"
  have n: "int ?n = SEQ_LEN cfg - 1" if "t < ?n" for t using that by simp
  have "map (\<lambda>t. entries yi ! ((t * size1 yi + b) * size2 yi + 0)) [0..<size0 yi]
        = roll (map smp [0..<?n]) (100 * int b)"
    using dataset_entry(1) [OF assms(1,2) _ assms(3)] dataset_shape [OF assms(1,2)] n
    by (auto simp: list_eq_iff_nth_eq length_roll roll_nth nat_less_iff)
  then show "select_col yi b 0 = Inr (roll (map smp [0..<?n]) (100 * int b))"
    using dataset_shape [OF assms(1,2)] assms(3) by (simp add: select_col_def)
  have "map (\<lambda>t. entries yo ! ((t * size1 yo + b) * size2 yo + 0)) [0..<size0 yo]
        = roll (map (\<lambda>k. smp (Suc k)) [0..<?n]) (100 * int b)"
    using dataset_entry(2) [OF assms(1,2) _ assms(3)] dataset_shape [OF assms(1,2)] n
    by (auto simp: list_eq_iff_nth_eq length_roll roll_nth nat_less_iff)
  then show "select_col yo b 0 = Inr (roll (map (\<lambda>k. smp (Suc k)) [0..<?n]) (100 * int b))"
    using dataset_shape [OF assms(1,2)] assms(3) by (simp add: select_col_def)
qed

lemma batch_loop_empty:
  "batch_loop noise [] [] is g a b = ((a @ map (\<lambda>_. []) is, b @ map (\<lambda>_. []) is), g)"
  by (induction "is" arbitrary: a b) (simp_all add: rand_def batch_item_def roll_def)

lemma make_dataset_short:
  assumes "SEQ_LEN cfg = 0 \<or> SEQ_LEN cfg = 1" "1 \<le> BATCH_SIZE cfg"
  shows "make_dataset cfg smp g =
     Inr ((\<lparr>size0 = 0, size1 = nat (BATCH_SIZE cfg), size2 = 1, entries = []\<rparr>,
           \<lparr>size0 = 0, size1 = nat (BATCH_SIZE cfg), size2 = 1, entries = []\<rparr>), g)"
proof -
  let ?is = "[0..<nat (BATCH_SIZE cfg)]"
  have y: "py_slice (map smp [0..<nat (SEQ_LEN cfg)]) 0 (SEQ_LEN cfg - 1) = []"
          "py_slice (map smp [0..<nat (SEQ_LEN cfg)]) 1 (SEQ_LEN cfg) = []"
    using assms(1) by (auto simp: py_slice_def slice_bound_def)
  have ne: "map (\<lambda>_. []::real list) ?is \<noteq> []" using assms(2) by simp
  have len: "length r = 0" if "r \<in> set (map (\<lambda>_. []::real list) ?is)" for r
    using that by auto
  have "concat (map (\<lambda>_. []::real list) ?is) = []" by simp
  with stack_uniform [OF ne len]
  have st: "stack (map (\<lambda>_. []) ?is) =
      Inr \<lparr>rows = nat (BATCH_SIZE cfg), cols = 0, cells = []\<rparr>"
    by simp
  show ?thesis
    using assms(1) y st
    by (auto simp: make_dataset_def signal_def py_range_def batch_loop_empty
        unsqueeze2_def transpose01_def)
qed


lemma int_mod_succ:
  fixes a n :: int
  assumes "0 < n"
  shows "(a + 1) mod n = (if a mod n = n - 1 then 0 else a mod n + 1)"
proof -
  have r: "0 \<le> a mod n" "a mod n < n" using assms by simp_all
  have "(a + 1) mod n = (a mod n + 1) mod n" by (simp add: mod_add_left_eq)
  also have "\<dots> = (if a mod n = n - 1 then 0 else a mod n + 1)"
    using r by (auto simp: mod_pos_pos_trivial)
  finally show ?thesis .
qed

lemma wrap_iff:
  fixes n u c :: int
  assumes "0 < n" "0 \<le> u" "u < n"
  shows "(u = c mod n) = ((u - 1 - c) mod n = n - 1)"
proof -
  have "0 \<le> (u - 1 - c) mod n" using assms(1) by simp
  moreover have "(u - 1 - c) + 1 = u - c" by simp
  ultimately have "((u - 1 - c) mod n = n - 1) = ((u - c) mod n = 0)"
    using int_mod_succ [OF assms(1), of "u - 1 - c"] by auto
  also have "\<dots> = (u mod n = c mod n)"
    by (simp add: mod_eq_dvd_iff dvd_eq_mod_eq_0)
  also have "u mod n = u" using assms by (simp add: mod_pos_pos_trivial)
  finally show ?thesis by simp
qed


subsection \<open>Shape and one-step shift\<close>

lemma dataset_shift:
  assumes D: "make_dataset cfg smp g = Inr ((yi, yo), g')" and N: "NOISE cfg = 0"
    and L: "1 < SEQ_LEN cfg" and b: "b < nat (BATCH_SIZE cfg)"
    and t: "t + 1 < nat (SEQ_LEN cfg - 1)"
  shows "if int (t + 1) = (100 * int b) mod (SEQ_LEN cfg - 1)
         then item3 yo t b 0 = Inr (smp (nat (SEQ_LEN cfg - 1))) \<and>
              item3 yi (t + 1) b 0 = Inr (smp 0)
         else \<exists>v. item3 yo t b 0 = Inr v \<and> item3 yi (t + 1) b 0 = Inr v"
proof -
  let ?n = "SEQ_LEN cfg - 1"
  have n: "0 < ?n" using L by simp
  let ?a = "int t - 100 * int b"
  have out: "item3 yo t b 0 = Inr (smp (Suc (nat (?a mod ?n))))"
    using dataset_item(2) [OF D N _ b, of t] t by simp
  have e: "int (t + 1) - 100 * int b = ?a + 1" by simp
  have inp: "item3 yi (t + 1) b 0 = Inr (smp (nat ((?a + 1) mod ?n)))"
    using dataset_item(1) [OF D N t b] unfolding e .
  have "int (t + 1) - 1 - 100 * int b = ?a" by simp
  moreover have "0 \<le> int (t + 1)" "int (t + 1) < ?n" using t by simp_all
  ultimately have wrap: "(int (t + 1) = (100 * int b) mod ?n) = (?a mod ?n = ?n - 1)"
    using wrap_iff [OF n, of "int (t + 1)" "100 * int b"] by simp
  show ?thesis
  proof (cases "?a mod ?n = ?n - 1")
    case True
    then have "(?a + 1) mod ?n = 0" using int_mod_succ [OF n, of ?a] by simp
    moreover have "Suc (nat (?a mod ?n)) = nat ?n" using True n by simp
    ultimately show ?thesis using wrap True out inp by simp
  next
    case False
    then have "(?a + 1) mod ?n = ?a mod ?n + 1" using int_mod_succ [OF n, of ?a] by simp
    moreover have "0 \<le> ?a mod ?n" using n by simp
    ultimately have "nat ((?a + 1) mod ?n) = Suc (nat (?a mod ?n))" by simp
    then show ?thesis using wrap False out inp by simp
  qed
qed

text \<open>
  The two samples that meet at the wrap are the end points of the signal. Where they are
  the same number, as they are for \<open>sin x * cos (x / 2) + 1 / 2\<close> at \<open>0\<close> and
  \<open>8 * pi\<close> in exact arithmetic, the target is the next input at every position.
\<close>

lemma dataset_shift_endpoints:
  assumes "make_dataset cfg smp g = Inr ((yi, yo), g')" and "NOISE cfg = 0"
    and "1 < SEQ_LEN cfg" and "b < nat (BATCH_SIZE cfg)" and "t + 1 < nat (SEQ_LEN cfg - 1)"
    and "smp (nat (SEQ_LEN cfg - 1)) = smp 0"
  shows "\<exists>v. item3 yo t b 0 = Inr v \<and> item3 yi (t + 1) b 0 = Inr v"
  using dataset_shift [OF assms(1-5)] assms(6) by (auto split: if_splits)

lemma exact_endpoints: "sin (8 * pi) * cos (8 * pi / 2) + 1 / 2 = sin 0 * cos (0 / 2) + 1 / (2::real)"
proof -
  have "sin (8 * pi) = sin (2 * pi * real_of_int 4)" by simp
  also have "\<dots> = 0" by (rule sin_zero_iff_int2 [THEN iffD2]) (rule exI [of _ 8], simp)
  finally show ?thesis by simp
qed




subsection \<open>Batch elements are rolls of batch element 0\<close>

text \<open>
  Claim C2. With \<open>NOISE = 0\<close>, for every batch index \<open>i\<close> with \<open>0 \<le> i < B\<close> the input
  sequence of batch element \<open>i\<close> (the column \<^verbatim>\<open>y_in[:, i, 0]\<close>) is the input
  sequence of batch element 0 rolled by \<open>100 * i\<close> samples, which is the roll by
  \<open>100 * i mod (L - 1)\<close>; batch element 0 holds the first \<open>L - 1\<close> samples.
\<close>

theorem batch_elements_are_rolls:
  assumes "0 \<le> SEQ_LEN cfg" "NOISE cfg = 0" "i < nat (BATCH_SIZE cfg)"
  shows "\<exists>yi yo g' c0 ci.
     make_dataset cfg smp g = Inr ((yi, yo), g') \<and>
     select_col yi 0 0 = Inr c0 \<and> select_col yi i 0 = Inr ci \<and>
     length c0 = nat (SEQ_LEN cfg - 1) \<and>
     ci = roll c0 (100 * int i) \<and>
     ci = roll c0 ((100 * int i) mod (SEQ_LEN cfg - 1))"
proof -
  let ?n = "nat (SEQ_LEN cfg - 1)"
  let ?y = "map smp [0..<?n]"
  have B: "1 \<le> BATCH_SIZE cfg" "0 < nat (BATCH_SIZE cfg)" using assms(3) by simp_all
  from make_dataset_noise0 [OF assms(1) B(1) assms(2), of smp g]
  obtain yi yo g' where D: "make_dataset cfg smp g = Inr ((yi, yo), g')"
    by blast
  have c0: "select_col yi 0 0 = Inr ?y"
    using dataset_col(1) [OF D assms(2) B(2)] by (simp add: roll_zero)
  have ci: "select_col yi i 0 = Inr (roll ?y (100 * int i))"
    using dataset_col(1) [OF D assms(2,3)] .
  have m: "roll ?y ((100 * int i) mod (SEQ_LEN cfg - 1)) = roll ?y (100 * int i)"
  proof (cases "1 \<le> SEQ_LEN cfg")
    case True
    then have "int (length ?y) = SEQ_LEN cfg - 1" by simp
    then show ?thesis using roll_mod [of ?y "100 * int i"] by simp
  next
    case False
    then show ?thesis by (simp add: roll_def)
  qed
  show ?thesis
    using D c0 ci m by simp
qed

text \<open>The theorem at \<open>L = 4\<close>, \<open>B = 2\<close>, \<open>i = 1\<close> with the samples \<open>0, 1, 2, 3\<close>.\<close>

theorem batch_elements_are_rolls_witness:
  "0 \<le> SEQ_LEN (script_config\<lparr>SEQ_LEN := 4, BATCH_SIZE := 2\<rparr>) \<and>
   NOISE (script_config\<lparr>SEQ_LEN := 4, BATCH_SIZE := 2\<rparr>) = 0 \<and>
   1 < nat (BATCH_SIZE (script_config\<lparr>SEQ_LEN := 4, BATCH_SIZE := 2\<rparr>)) \<and>
   (\<exists>yi yo g'.
      make_dataset (script_config\<lparr>SEQ_LEN := 4, BATCH_SIZE := 2\<rparr>) real real
        = Inr ((yi, yo), g') \<and>
      select_col yi 0 0 = Inr [0, 1, 2] \<and> select_col yi 1 0 = Inr [2, 0, 1])"
proof -
  let ?c = "script_config\<lparr>SEQ_LEN := 4, BATCH_SIZE := 2\<rparr>"
  have h: "0 \<le> SEQ_LEN ?c" "NOISE ?c = 0" "1 < nat (BATCH_SIZE ?c)"
    by (simp_all add: script_config_def)
  from batch_elements_are_rolls [OF h, of real real]
  obtain yi yo g' c0 ci where D: "make_dataset ?c real real = Inr ((yi, yo), g')"
    and c: "select_col yi 0 0 = Inr c0" "select_col yi 1 0 = Inr ci"
      "length c0 = nat (SEQ_LEN ?c - 1)" "ci = roll c0 (100 * int 1)"
    by blast
  have z: "select_col yi 0 0 = Inr [0, 1, 2]"
    using dataset_col(1) [OF D h(2), of 0]
    by (simp add: script_config_def roll_zero upt_conv_Cons)
  then have "c0 = [0, 1, 2]" using c(1) by simp
  then have "ci = [2, 0, 1]" using c(4) by (simp add: roll_def)
  then show ?thesis using h D z c(2) by simp
qed

subsection \<open>Sequence lengths 0 and 1\<close>

text \<open>
  Claim C3 as stated (a sequence length \<open>L \<le> 1\<close> raises an error before any array is
  built) fails: with \<open>L = 1\<close> and the script's batch size the construction returns two
  empty tensors of shape \<open>(0, 5, 1)\<close> and raises nothing.
\<close>

theorem short_sequence_is_accepted:
  "make_dataset (script_config\<lparr>SEQ_LEN := 1\<rparr>) real real =
     Inr ((\<lparr>size0 = 0, size1 = 5, size2 = 1, entries = []\<rparr>,
           \<lparr>size0 = 0, size1 = 5, size2 = 1, entries = []\<rparr>), real)"
  using make_dataset_short [of "script_config\<lparr>SEQ_LEN := 1\<rparr>" real real]
  by (simp add: script_config_def)

text \<open>
  Claim C3, as the code has it. The script has no check of the sequence length: for
  \<open>L = 0\<close> and \<open>L = 1\<close> (and \<open>B \<ge> 1\<close>) the construction raises no error and
  returns an input and a target tensor of shape \<open>(0, B, 1)\<close> without elements, drawing
  no random numbers.
\<close>

theorem empty_dataset_for_short_sequence:
  assumes "SEQ_LEN cfg \<in> {0, 1}" "1 \<le> BATCH_SIZE cfg"
  shows "make_dataset cfg smp g =
     Inr ((\<lparr>size0 = 0, size1 = nat (BATCH_SIZE cfg), size2 = 1, entries = []\<rparr>,
           \<lparr>size0 = 0, size1 = nat (BATCH_SIZE cfg), size2 = 1, entries = []\<rparr>), g)"
  using make_dataset_short [of cfg smp g] assms by auto

text \<open>The theorem at \<open>L = 0\<close>, \<open>B = 3\<close>.\<close>

theorem empty_dataset_for_short_sequence_witness:
  "SEQ_LEN (script_config\<lparr>SEQ_LEN := 0, BATCH_SIZE := 3\<rparr>) = 0 \<and>
   1 \<le> BATCH_SIZE (script_config\<lparr>SEQ_LEN := 0, BATCH_SIZE := 3\<rparr>) \<and>
   make_dataset (script_config\<lparr>SEQ_LEN := 0, BATCH_SIZE := 3\<rparr>) real real =
     Inr ((\<lparr>size0 = 0, size1 = 3, size2 = 1, entries = []\<rparr>,
           \<lparr>size0 = 0, size1 = 3, size2 = 1, entries = []\<rparr>), real)"
  using empty_dataset_for_short_sequence [of "script_config\<lparr>SEQ_LEN := 0, BATCH_SIZE := 3\<rparr>" real real]
  by (simp add: script_config_def)

section \<open>Properties of the training loop\<close>

subsection \<open>One epoch and the loop\<close>

lemma epoch_unfold:
  "epoch lib net i s =
     s\<lparr>losses := losses s @ [epoch_loss lib net s],
       world := optimizer_step lib (backward lib
                  (snd (criterion lib (epoch_pred lib net s) (y_out s)
                         (snd (forward net lib (y_in s) None (zero_grad lib (world s))))))),
       calls := calls s @ epoch_calls lib net i s\<rparr>"
  by (simp add: epoch_def call_zero_grad_def call_model_def call_criterion_def call_backward_def
      call_step_def emit_def epoch_pred_def epoch_loss_def epoch_calls_def Let_def
      split: prod.splits)

lemma epoch_fields:
  "y_in (epoch lib net i s) = y_in s" "y_out (epoch lib net i s) = y_out s"
  "dirs (epoch lib net i s) = dirs s" "files (epoch lib net i s) = files s"
  "losses (epoch lib net i s) = losses s @ [epoch_loss lib net s]"
  "calls (epoch lib net i s) = calls s @ epoch_calls lib net i s"
  by (simp_all add: epoch_unfold)

lemma train_loop_frame:
  "y_in (train_loop lib net is s) = y_in s \<and> y_out (train_loop lib net is s) = y_out s \<and>
   dirs (train_loop lib net is s) = dirs s \<and> files (train_loop lib net is s) = files s"
  by (induction "is" arbitrary: s) (simp_all add: epoch_fields)

lemma train_loop_append:
  "train_loop lib net (is @ js) s = train_loop lib net js (train_loop lib net is s)"
  by (induction "is" arbitrary: s) simp_all

lemma train_loop_snoc:
  "train_loop lib net (is @ [i]) s = epoch lib net i (train_loop lib net is s)"
  by (simp add: train_loop_append)

lemma train_loop_upt_losses:
  "losses (train_loop lib net [0..<n] s) =
     losses s @ map (\<lambda>k. epoch_loss lib net (train_loop lib net [0..<k] s)) [0..<n]"
  by (induction n) (simp_all add: train_loop_snoc epoch_fields)

lemma train_loop_upt_calls:
  "calls (train_loop lib net [0..<n] s) =
     calls s @ concat (map (\<lambda>k. epoch_calls lib net k (train_loop lib net [0..<k] s)) [0..<n])"
  by (induction n) (simp_all add: train_loop_snoc epoch_fields)



lemma epoch_notions_log_free:
  "epoch_pred lib net (s\<lparr>calls := cs\<rparr>) = epoch_pred lib net s"
  "epoch_loss lib net (s\<lparr>calls := cs\<rparr>) = epoch_loss lib net s"
  "epoch_pred lib net (s\<lparr>losses := ls\<rparr>) = epoch_pred lib net s"
  "epoch_loss lib net (s\<lparr>losses := ls\<rparr>) = epoch_loss lib net s"
  by (simp_all add: epoch_pred_def epoch_loss_def)



lemma train_frame:
  "y_in (train lib net E s) = y_in s" "y_out (train lib net E s) = y_out s"
  "dirs (train lib net E s) = dirs s" "files (train lib net E s) = files s"
  by (simp_all add: train_def train_loop_frame)

lemma train_prefix:
  "train_loop lib net [0..<k] (s\<lparr>losses := []\<rparr>) = train lib net (int k) s"
  by (simp add: train_def py_range_def)

lemma train_losses:
  "losses (train lib net E s) =
     map (\<lambda>i. epoch_loss lib net (train lib net (int i) s)) [0..<nat E]"
  by (simp add: train_def py_range_def train_loop_upt_losses train_prefix [unfolded train_def py_range_def, simplified])

lemma train_calls:
  "calls (train lib net E s) =
     calls s @ concat (map (\<lambda>i. epoch_calls lib net i (train lib net (int i) s)) [0..<nat E])"
  by (simp add: train_def py_range_def train_loop_upt_calls)

lemma train_zero: "train lib net 0 s = s\<lparr>losses := []\<rparr>"
  by (simp add: train_def py_range_def)

lemma train_Suc:
  "train lib net (int (Suc k)) s = epoch lib net k (train lib net (int k) s)"
  unfolding train_def py_range_def nat_int by (simp add: train_loop_snoc)


lemma filter_prints_epoch:
  "filter is_print_train (epoch_calls lib net i s) = [Print_train i (exp (epoch_loss lib net s))]"
  by (simp add: epoch_calls_def)

lemma concat_singletons: "concat (map (\<lambda>i. [f i]) xs) = map f xs"
  by (induction xs) simp_all

lemma train_prints:
  "filter is_print_train (drop (length (calls s)) (calls (train lib net E s))) =
     map (\<lambda>i. Print_train i (exp (losses (train lib net E s) ! i))) [0..<nat E]"
  by (simp add: train_calls train_losses filter_concat comp_def filter_prints_epoch
      concat_singletons)

lemma toy_predicts: "predicts_per_step toy_library net"
  by (cases net)
     (simp_all add: predicts_per_step_def toy_library_def toy_decoder_def scale_def dims_def)



subsection \<open>The epochs of the training loop\<close>



subsection \<open>The recorded loss precedes the update\<close>

text \<open>
  Claim C9. For every epoch \<open>i < E\<close> the loss recorded at position \<open>i\<close> is the loss
  of the forward pass on the library state left by the first \<open>i\<close> epochs (gradients
  cleared), and the optimizer step of epoch \<open>i\<close> comes after it: the state after
  \<open>i + 1\<close> epochs is the optimizer step applied to the state in which that loss was
  computed and back-propagated. The entry at position 0 is the loss of the model as it
  was before training. The perplexity printed for epoch \<open>i\<close> is the exponential of
  the recorded entry \<open>i\<close>, and one perplexity is printed per epoch.
\<close>

theorem loss_recorded_before_update:
  assumes "i < nat E"
  shows "(let w = world (train lib net (int i) s);
              r = forward net lib (y_in s) None (zero_grad lib w);
              l = criterion lib (fst (fst r)) (y_out s) (snd r)
          in losses (train lib net E s) ! i = fst l \<and>
             world (train lib net (int (Suc i)) s) = optimizer_step lib (backward lib (snd l))) \<and>
         (let r0 = forward net lib (y_in s) None (zero_grad lib (world s))
          in losses (train lib net E s) ! 0 = fst (criterion lib (fst (fst r0)) (y_out s) (snd r0))) \<and>
         filter is_print_train (drop (length (calls s)) (calls (train lib net E s))) ! i =
           Print_train i (exp (losses (train lib net E s) ! i)) \<and>
         length (filter is_print_train (drop (length (calls s)) (calls (train lib net E s)))) = nat E"
proof -
  have l: "losses (train lib net E s) ! k = epoch_loss lib net (train lib net (int k) s)"
    if "k < nat E" for k using that by (simp add: train_losses)
  have a: "losses (train lib net E s) ! i =
      fst (criterion lib (fst (fst (forward net lib (y_in s) None (zero_grad lib (world (train lib net (int i) s))))))
             (y_out s) (snd (forward net lib (y_in s) None (zero_grad lib (world (train lib net (int i) s))))))"
    using l [OF assms] by (simp add: epoch_loss_def epoch_pred_def train_frame)
  have b: "world (train lib net (int (Suc i)) s) =
      optimizer_step lib (backward lib (snd (criterion lib
         (fst (fst (forward net lib (y_in s) None (zero_grad lib (world (train lib net (int i) s))))))
         (y_out s) (snd (forward net lib (y_in s) None (zero_grad lib (world (train lib net (int i) s))))))))"
    unfolding train_Suc by (simp add: epoch_unfold epoch_pred_def train_frame)
  have "0 < nat E" using assms by simp
  from l [OF this] have c: "losses (train lib net E s) ! 0 =
      fst (criterion lib (fst (fst (forward net lib (y_in s) None (zero_grad lib (world s)))))
             (y_out s) (snd (forward net lib (y_in s) None (zero_grad lib (world s)))))"
    by (simp add: train_zero epoch_notions_log_free epoch_loss_def epoch_pred_def)
  have d: "filter is_print_train (drop (length (calls s)) (calls (train lib net E s))) ! i =
           Print_train i (exp (losses (train lib net E s) ! i))"
    using assms by (simp add: train_prints)
  have e: "length (filter is_print_train (drop (length (calls s)) (calls (train lib net E s)))) = nat E"
    by (simp add: train_prints)
  show ?thesis using a b c d e by (simp add: Let_def)
qed

text \<open>The theorem for the second of two epochs of the small library instance: the
  recorded losses are 1 and 0, and the weight is halved once before the second loss.\<close>

theorem loss_recorded_before_update_witness:
  "(1::nat) < nat 2 \<and>
   losses (train toy_library AnalogRNNNetwork_noEmbedding 2 toy_state) ! 0 = 1 \<and>
   losses (train toy_library AnalogRNNNetwork_noEmbedding 2 toy_state) ! 1 = 0 \<and>
   world (train toy_library AnalogRNNNetwork_noEmbedding 1 toy_state) = \<lparr>weight = 1 / 2, training = True\<rparr> \<and>
   filter is_print_train (drop (length (calls toy_state))
       (calls (train toy_library AnalogRNNNetwork_noEmbedding 2 toy_state))) ! 1 =
     Print_train 1 (exp 0)"
proof -
  have h: "(1::nat) < nat 2" by simp
  note t = loss_recorded_before_update [OF h, of toy_library AnalogRNNNetwork_noEmbedding toy_state]
  have w0: "world (train toy_library AnalogRNNNetwork_noEmbedding 0 toy_state) = \<lparr>weight = 1, training = True\<rparr>"
    by (simp add: train_zero toy_state_def)
  have l0: "losses (train toy_library AnalogRNNNetwork_noEmbedding 2 toy_state) ! 0 = 1"
    using t by (simp add: Let_def toy_library_def toy_state_def toy_decoder_def scale_def mse_loss_def)
  have w1: "world (train toy_library AnalogRNNNetwork_noEmbedding 1 toy_state) = \<lparr>weight = 1 / 2, training = True\<rparr>"
    using loss_recorded_before_update [of 0 1 toy_library AnalogRNNNetwork_noEmbedding toy_state] w0
    by (simp add: Let_def toy_library_def toy_state_def toy_decoder_def scale_def mse_loss_def)
  have l1: "losses (train toy_library AnalogRNNNetwork_noEmbedding 2 toy_state) ! 1 = 0"
    using t w1 by (simp add: Let_def toy_library_def toy_state_def toy_decoder_def scale_def mse_loss_def)
  show ?thesis using h t l0 l1 w1 by simp
qed

section \<open>Properties of the test and of the drift sweep\<close>

lemma contract_col:
  assumes "predicts_per_step lib net" "0 < size1 x"
  shows "\<exists>c. select_col (fst (fst (forward net lib x st m))) 0 0 = Inr c"
proof -
  have "dims (fst (fst (forward net lib x st m))) = (size0 x, size1 x, 1)"
    using assms(1) by (simp add: predicts_per_step_def)
  then show ?thesis using assms(2) by (simp add: select_col_def dims_def)
qed


lemma plot_training_unfold:
  "plot_training ext R s =
     s\<lparr>calls := calls s @
          [Figure, Plot (map exp (losses s)) (Some ''-b'') None, Xlabel ''# Epochs'',
           Ylabel ''Perplexity [1]'', Ylim 1.0 1.4, Savefig (R @ [''train_perplexity'']), Close],
       files := files s @ [with_ext ext (R @ [''train_perplexity''])]\<rparr>"
  by (simp add: plot_training_def savefig_def emit_def Let_def)

lemma drift_step_ok:
  assumes "select_col (fst (fst (forward net lib (y_in s) None (drift_analog_weights lib t (world s))))) 0 0 = Inr c"
  shows "drift_step lib net t s =
     Inr (s\<lparr>world := snd (forward net lib (y_in s) None (drift_analog_weights lib t (world s))),
            calls := calls s @
              [Drift t,
               Model_call (y_in s) (fst (fst (forward net lib (y_in s) None (drift_analog_weights lib t (world s))))),
               Plot c None (Some (Label_t t))]\<rparr>)"
  using assms
  by (simp add: drift_step_def call_drift_def call_model_def emit_def Let_def case_prod_beta)

lemma test_phase_ok:
  assumes "r = forward net lib (y_in s) None (eval_mode lib (world s))"
    and "lm = criterion lib (fst (fst r)) (y_out s) (snd r)"
    and "select_col (y_out s) 0 0 = Inr truth"
    and "select_col (fst (fst r)) 0 0 = Inr c"
  shows "test_phase lib net ext R s =
     Inr (s\<lparr>world := snd lm,
            calls := calls s @
              [Eval, Model_call (y_in s) (fst (fst r)), Criterion (fst (fst r)) (y_out s) (fst lm),
               Print_test (exp (fst lm)), Figure,
               Plot truth (Some ''-b'') None, Plot c (Some ''-g'') None,
               Legend (Some [''truth'', ''prediction'']), Savefig (R @ [''test'']), Close],
            files := files s @ [with_ext ext (R @ [''test''])]\<rparr>)"
  using assms
  by (simp add: test_phase_def call_eval_def call_model_def call_criterion_def savefig_def
      emit_def Let_def case_prod_beta)

lemma drift_step_state:
  assumes "predicts_per_step lib net" "0 < size1 (y_in s)"
    and "r = forward net lib (y_in s) None (drift_analog_weights lib t (world s))"
  shows "\<exists>c. select_col (fst (fst r)) 0 0 = Inr c \<and>
     drift_step lib net t s =
       Inr (s\<lparr>world := snd r,
              calls := calls s @ [Drift t, Model_call (y_in s) (fst (fst r)),
                                   Plot c None (Some (Label_t t))]\<rparr>)"
proof -
  from contract_col [OF assms(1,2)] obtain c where "select_col (fst (fst r)) 0 0 = Inr c"
    unfolding assms(3) by blast
  then show ?thesis using drift_step_ok [of net lib s t c] assms(3) by auto
qed

subsection \<open>The five drift observations\<close>



section \<open>Properties of the whole script\<close>

subsection \<open>The run completes\<close>

lemma length_batch_item:
  "length r = length y \<Longrightarrow> length (batch_item noise y i r) = length y"
  by (simp add: batch_item_def length_roll)

lemma batch_loop_rows:
  assumes "list_all (\<lambda>r. length r = length yi) a" "list_all (\<lambda>r. length r = length yo) b"
    and "batch_loop noise yi yo is g a b = ((a', b'), g')"
  shows "length a' = length a + length is \<and> length b' = length b + length is \<and>
         list_all (\<lambda>r. length r = length yi) a' \<and> list_all (\<lambda>r. length r = length yo) b'"
  using assms
proof (induction "is" arbitrary: g a b)
  case Nil
  then show ?case by simp
next
  case (Cons i "is")
  let ?r1 = "map g [0..<length yi]"
  let ?g1 = "\<lambda>k. g (length yi + k)"
  let ?r2 = "map ?g1 [0..<length yo]"
  let ?g2 = "\<lambda>k. ?g1 (length yo + k)"
  let ?a = "a @ [batch_item noise yi i ?r1]"
  let ?b = "b @ [batch_item noise yo i ?r2]"
  have step: "batch_loop noise yi yo is ?g2 ?a ?b = ((a', b'), g')"
    using Cons.prems(3) by (simp add: rand_def)
  have la: "list_all (\<lambda>r. length r = length yi) ?a"
    using Cons.prems(1) by (simp add: length_batch_item)
  have lb: "list_all (\<lambda>r. length r = length yo) ?b"
    using Cons.prems(2) by (simp add: length_batch_item)
  from Cons.IH [OF la lb step] show ?case by simp
qed


lemma make_dataset_ok:
  assumes L: "0 \<le> SEQ_LEN cfg" and B: "1 \<le> BATCH_SIZE cfg"
  shows "\<exists>yi yo g'. make_dataset cfg smp g = Inr ((yi, yo), g') \<and>
     dims yi = (nat (SEQ_LEN cfg - 1), nat (BATCH_SIZE cfg), 1) \<and>
     dims yo = (nat (SEQ_LEN cfg - 1), nat (BATCH_SIZE cfg), 1)"
proof -
  let ?n = "nat (SEQ_LEN cfg - 1)"
  let ?yi = "map smp [0..<?n]"
  let ?yo = "map (\<lambda>k. smp (Suc k)) [0..<?n]"
  let ?is = "[0..<nat (BATCH_SIZE cfg)]"
  obtain a b g' where bl: "batch_loop (NOISE cfg) ?yi ?yo ?is g [] [] = ((a, b), g')"
    by (metis surj_pair)
  from batch_loop_rows [OF _ _ bl]
  have rows: "length a = nat (BATCH_SIZE cfg)" "length b = nat (BATCH_SIZE cfg)"
    "list_all (\<lambda>r. length r = ?n) a" "list_all (\<lambda>r. length r = ?n) b"
    by simp_all
  have ne: "a \<noteq> []" "b \<noteq> []" using rows(1,2) B by auto
  have ra: "length r = ?n" if "r \<in> set a" for r using rows(3) that by (simp add: list_all_iff)
  have rb: "length r = ?n" if "r \<in> set b" for r using rows(4) that by (simp add: list_all_iff)
  have s1: "stack a = Inr \<lparr>rows = nat (BATCH_SIZE cfg), cols = ?n, cells = concat a\<rparr>"
    using stack_uniform [OF ne(1) ra] rows(1) by simp
  have s2: "stack b = Inr \<lparr>rows = nat (BATCH_SIZE cfg), cols = ?n, cells = concat b\<rparr>"
    using stack_uniform [OF ne(2) rb] rows(2) by simp
  define yi where "yi = unsqueeze2 (transpose01 \<lparr>rows = nat (BATCH_SIZE cfg), cols = ?n, cells = concat a\<rparr>)"
  define yo where "yo = unsqueeze2 (transpose01 \<lparr>rows = nat (BATCH_SIZE cfg), cols = ?n, cells = concat b\<rparr>)"
  have m: "make_dataset cfg smp g = Inr ((yi, yo), g')"
    using L bl s1 s2
    by (simp add: make_dataset_def signal_def slice_in slice_out py_range_def yi_def yo_def)
  have d: "dims yi = (?n, nat (BATCH_SIZE cfg), 1)" "dims yo = (?n, nat (BATCH_SIZE cfg), 1)"
    by (simp_all add: dims_def unsqueeze2_def transpose01_def yi_def yo_def)
  from m d show ?thesis by blast
qed

lemma train_loop_log_facts:
  "y_in s = yi \<Longrightarrow> y_out s = yo \<Longrightarrow>
   filter writes_fs (calls (train_loop lib net js s)) = filter writes_fs (calls s) \<and>
   list_all (on_dataset yi yo) (calls (train_loop lib net js s)) =
     list_all (on_dataset yi yo) (calls s) \<and>
   length (filter is_model_call (calls (train_loop lib net js s))) =
     length (filter is_model_call (calls s)) + length js"
  by (induction js arbitrary: s) (simp_all add: epoch_fields epoch_calls_def)

lemma train_log_facts:
  "filter writes_fs (calls (train lib net E s)) = filter writes_fs (calls s)"
  "list_all (on_dataset (y_in s) (y_out s)) (calls (train lib net E s)) =
     list_all (on_dataset (y_in s) (y_out s)) (calls s)"
  "length (filter is_model_call (calls (train lib net E s))) =
     length (filter is_model_call (calls s)) + nat E"
  using train_loop_log_facts [of "s\<lparr>losses := []\<rparr>" "y_in s" "y_out s" lib net "py_range E"]
  by (simp_all add: train_def py_range_def)

lemma drift_loop_facts:
  assumes "predicts_per_step lib net" "0 < size1 (y_in s)"
  shows "\<exists>s'. drift_loop lib net ts s = Inr s' \<and>
     y_in s' = y_in s \<and> y_out s' = y_out s \<and> losses s' = losses s \<and>
     dirs s' = dirs s \<and> files s' = files s \<and>
     filter writes_fs (calls s') = filter writes_fs (calls s) \<and>
     list_all (on_dataset (y_in s) yo) (calls s') = list_all (on_dataset (y_in s) yo) (calls s) \<and>
     length (filter is_model_call (calls s')) = length (filter is_model_call (calls s)) + length ts"
  using assms(2)
proof (induction ts arbitrary: s)
  case Nil
  then show ?case by simp
next
  case (Cons t ts)
  from drift_step_state [OF assms(1) Cons.prems refl, of t]
  obtain c s1 where d: "drift_step lib net t s = Inr s1"
    and s1: "s1 = s\<lparr>world := snd (forward net lib (y_in s) None (drift_analog_weights lib t (world s))),
              calls := calls s @ [Drift t,
                 Model_call (y_in s) (fst (fst (forward net lib (y_in s) None (drift_analog_weights lib t (world s))))),
                 Plot c None (Some (Label_t t))]\<rparr>"
    by blast
  have "0 < size1 (y_in s1)" using Cons.prems by (simp add: s1)
  from Cons.IH [OF this] obtain s' where "drift_loop lib net ts s1 = Inr s'"
     "y_in s' = y_in s1" "y_out s' = y_out s1" "losses s' = losses s1"
     "dirs s' = dirs s1" "files s' = files s1"
     "filter writes_fs (calls s') = filter writes_fs (calls s1)"
     "list_all (on_dataset (y_in s1) yo) (calls s') = list_all (on_dataset (y_in s1) yo) (calls s1)"
     "length (filter is_model_call (calls s')) = length (filter is_model_call (calls s1)) + length ts"
    by blast
  then show ?case using d by (simp add: s1)
qed

lemma drift_test_facts:
  assumes "predicts_per_step lib net" "0 < size1 (y_in s)" "select_col (y_out s) 0 0 = Inr truth"
  shows "\<exists>s'. drift_test lib net ext R s = Inr s' \<and>
     y_in s' = y_in s \<and> y_out s' = y_out s \<and> dirs s' = dirs s \<and>
     files s' = files s @ [with_ext ext (R @ [''drift''])] \<and>
     filter writes_fs (calls s') = filter writes_fs (calls s) @ [Savefig (R @ [''drift''])] \<and>
     list_all (on_dataset (y_in s) yo) (calls s') = list_all (on_dataset (y_in s) yo) (calls s) \<and>
     length (filter is_model_call (calls s')) = length (filter is_model_call (calls s)) + 5"
proof -
  define s2 where "s2 = emit (Plot truth (Some ''-b'') (Some (Label ''truth''))) (emit Figure s)"
  have f2: "y_in s2 = y_in s" "y_out s2 = y_out s" "dirs s2 = dirs s" "files s2 = files s"
    "calls s2 = calls s @ [Figure, Plot truth (Some ''-b'') (Some (Label ''truth''))]"
    by (simp_all add: s2_def emit_def)
  have "0 < size1 (y_in s2)" using assms(2) f2 by simp
  from drift_loop_facts [OF assms(1) this, of "[0, 1, 20, 1000, 100000]" yo]
  obtain s3 where l: "drift_loop lib net [0, 1, 20, 1000, 100000] s2 = Inr s3"
    and f3: "y_in s3 = y_in s2" "y_out s3 = y_out s2" "dirs s3 = dirs s2" "files s3 = files s2"
      "filter writes_fs (calls s3) = filter writes_fs (calls s2)"
      "list_all (on_dataset (y_in s2) yo) (calls s3) = list_all (on_dataset (y_in s2) yo) (calls s2)"
      "length (filter is_model_call (calls s3)) = length (filter is_model_call (calls s2)) + 5"
    by auto
  have "drift_test lib net ext R s =
      Inr (emit Close (savefig ext (R @ [''drift'']) (emit (Legend None) s3)))"
    using assms(3) l by (simp add: drift_test_def Let_def emit_def s2_def)
  then show ?thesis
    using f2 f3 by (simp add: emit_def savefig_def)
qed

lemma test_phase_facts:
  assumes "predicts_per_step lib net" "0 < size1 (y_in s)" "select_col (y_out s) 0 0 = Inr truth"
  shows "\<exists>s'. test_phase lib net ext R s = Inr s' \<and>
     y_in s' = y_in s \<and> y_out s' = y_out s \<and> dirs s' = dirs s \<and>
     files s' = files s @ [with_ext ext (R @ [''test''])] \<and>
     filter writes_fs (calls s') = filter writes_fs (calls s) @ [Savefig (R @ [''test''])] \<and>
     list_all (on_dataset (y_in s) (y_out s)) (calls s') =
       list_all (on_dataset (y_in s) (y_out s)) (calls s) \<and>
     length (filter is_model_call (calls s')) = length (filter is_model_call (calls s)) + 1"
proof -
  from contract_col [OF assms(1,2)]
  obtain c where c: "select_col (fst (fst (forward net lib (y_in s) None (eval_mode lib (world s))))) 0 0 = Inr c"
    by blast
  show ?thesis
    unfolding test_phase_ok [OF refl refl assms(3) c] by simp
qed

lemma run_completes:
  assumes "0 \<le> SEQ_LEN cfg" "1 \<le> BATCH_SIZE cfg" "predicts_per_step lib (select_model cfg)"
  shows "\<exists>yi yo g' s'.
     make_dataset cfg smp g = Inr ((yi, yo), g') \<and>
     run cfg cwd ext lib smp g m0 ds = Inr s' \<and>
     y_in s' = yi \<and> y_out s' = yo \<and>
     dirs s' = makedirs (cwd @ [''results'', ''RNN'']) ds \<and>
     files s' = [with_ext ext (cwd @ [''results'', ''RNN'', ''train_perplexity'']),
                 with_ext ext (cwd @ [''results'', ''RNN'', ''test'']),
                 with_ext ext (cwd @ [''results'', ''RNN'', ''drift''])] \<and>
     filter writes_fs (calls s') =
       [Makedirs (cwd @ [''results'', ''RNN'']),
        Savefig (cwd @ [''results'', ''RNN'', ''train_perplexity'']),
        Savefig (cwd @ [''results'', ''RNN'', ''test'']),
        Savefig (cwd @ [''results'', ''RNN'', ''drift''])] \<and>
     list_all (on_dataset yi yo) (calls s') \<and>
     length (filter is_model_call (calls s')) = nat (EPOCHS cfg) + 6"
proof -
  let ?R = "cwd @ [''results'', ''RNN'']"
  let ?net = "select_model cfg"
  from make_dataset_ok [OF assms(1,2), of smp g]
  obtain yi yo g' where D: "make_dataset cfg smp g = Inr ((yi, yo), g')"
    and di: "dims yi = (nat (SEQ_LEN cfg - 1), nat (BATCH_SIZE cfg), 1)"
    and do: "dims yo = (nat (SEQ_LEN cfg - 1), nat (BATCH_SIZE cfg), 1)"
    by blast
  define s0 where "s0 = \<lparr>y_in = yi, y_out = yo, losses = [], world = m0,
      calls = [Makedirs ?R], dirs = makedirs ?R ds, files = []\<rparr>"
  define s1 where "s1 = train lib ?net (EPOCHS cfg) s0"
  define s2 where "s2 = plot_training ext ?R s1"
  have f1: "y_in s1 = yi" "y_out s1 = yo" "dirs s1 = makedirs ?R ds" "files s1 = []"
    "filter writes_fs (calls s1) = [Makedirs ?R]"
    "list_all (on_dataset yi yo) (calls s1)"
    "length (filter is_model_call (calls s1)) = nat (EPOCHS cfg)"
    using train_log_facts [where lib = lib and net = "?net" and E = "EPOCHS cfg" and s = s0]
    by (simp_all add: s1_def train_frame) (simp_all add: s0_def)
  have f2: "y_in s2 = yi" "y_out s2 = yo" "dirs s2 = makedirs ?R ds"
    "files s2 = [with_ext ext (?R @ [''train_perplexity''])]"
    "filter writes_fs (calls s2) = [Makedirs ?R, Savefig (?R @ [''train_perplexity''])]"
    "list_all (on_dataset yi yo) (calls s2)"
    "length (filter is_model_call (calls s2)) = nat (EPOCHS cfg)"
    using f1 by (simp_all add: s2_def plot_training_unfold)
  have pos: "0 < size1 (y_in s2)" using di assms(2) f2(1) by (simp add: dims_def)
  have "\<exists>truth. select_col (y_out s2) 0 0 = Inr truth"
    using do assms(2) f2(2) by (simp add: dims_def select_col_def)
  then obtain truth where tr: "select_col (y_out s2) 0 0 = Inr truth" by blast
  from test_phase_facts [OF assms(3) pos tr, of ext ?R]
  obtain s3 where T: "test_phase lib ?net ext ?R s2 = Inr s3"
    and f3: "y_in s3 = yi" "y_out s3 = yo" "dirs s3 = makedirs ?R ds"
      "files s3 = [with_ext ext (?R @ [''train_perplexity'']), with_ext ext (?R @ [''test''])]"
      "filter writes_fs (calls s3) =
         [Makedirs ?R, Savefig (?R @ [''train_perplexity'']), Savefig (?R @ [''test''])]"
      "list_all (on_dataset yi yo) (calls s3)"
      "length (filter is_model_call (calls s3)) = nat (EPOCHS cfg) + 1"
    using f2 by auto
  have pos3: "0 < size1 (y_in s3)" using pos f2(1) f3(1) by simp
  have tr3: "select_col (y_out s3) 0 0 = Inr truth" using tr f2(2) f3(2) by simp
  from drift_test_facts [OF assms(3) pos3 tr3, of ext ?R yo]
  obtain s4 where Dr: "drift_test lib ?net ext ?R s3 = Inr s4"
    and f4: "y_in s4 = yi" "y_out s4 = yo" "dirs s4 = makedirs ?R ds"
      "files s4 = [with_ext ext (?R @ [''train_perplexity'']), with_ext ext (?R @ [''test'']),
                   with_ext ext (?R @ [''drift''])]"
      "filter writes_fs (calls s4) =
         [Makedirs ?R, Savefig (?R @ [''train_perplexity'']), Savefig (?R @ [''test'']),
          Savefig (?R @ [''drift''])]"
      "list_all (on_dataset yi yo) (calls s4)"
      "length (filter is_model_call (calls s4)) = nat (EPOCHS cfg) + 6"
    using f3 by auto
  have "run cfg cwd ext lib smp g m0 ds = Inr s4"
    using D T Dr by (simp add: run_def Let_def s0_def s1_def s2_def)
  then show ?thesis using D f4 by auto
qed

lemma with_ext_snoc: "with_ext ext (p @ [n]) = p @ [n @ ''.'' @ ext]"
  by (simp add: with_ext_def)

lemma makedirs_mem: "p \<noteq> [] \<Longrightarrow> p \<in> makedirs p ds"
proof -
  assume "p \<noteq> []"
  then have "length p \<in> set [1..<Suc (length p)]" by (cases p) simp_all
  then have "take (length p) p \<in> (\<lambda>k. take k p) ` set [1..<Suc (length p)]"
    by (rule imageI)
  then show ?thesis by (simp add: makedirs_def)
qed

lemma makedirs_mono: "ds \<subseteq> makedirs p ds"
  by (simp add: makedirs_def)

subsection \<open>Files written\<close>

text \<open>
  Claim C7. When the data set can be built (\<open>SEQ_LEN \<ge> 0\<close>, \<open>BATCH_SIZE \<ge> 1\<close>) and the
  network returns one value per time step and batch element, the script runs to its end
  and writes exactly three image files, \<open>train_perplexity\<close>, \<open>test\<close> and \<open>drift\<close>
  with the image extension, into the directory \<open>results/RNN\<close> of the working
  directory. That directory is created together with its missing ancestors and exists
  afterwards; every directory that existed before still does. The only calls of the
  script that write to the file system are the creation of the directory and the three
  saves, in this order.
\<close>

theorem run_writes_three_images:
  assumes "0 \<le> SEQ_LEN cfg" and "1 \<le> BATCH_SIZE cfg"
    and "predicts_per_step lib (select_model cfg)"
  shows "\<exists>s'. run cfg cwd ext lib smp g m0 ds = Inr s' \<and>
     files s' = [cwd @ [''results'', ''RNN'', ''train_perplexity'' @ ''.'' @ ext],
                 cwd @ [''results'', ''RNN'', ''test'' @ ''.'' @ ext],
                 cwd @ [''results'', ''RNN'', ''drift'' @ ''.'' @ ext]] \<and>
     filter writes_fs (calls s') =
       [Makedirs (cwd @ [''results'', ''RNN'']),
        Savefig (cwd @ [''results'', ''RNN'', ''train_perplexity'']),
        Savefig (cwd @ [''results'', ''RNN'', ''test'']),
        Savefig (cwd @ [''results'', ''RNN'', ''drift''])] \<and>
     dirs s' = makedirs (cwd @ [''results'', ''RNN'']) ds \<and>
     cwd @ [''results'', ''RNN''] \<in> dirs s' \<and> ds \<subseteq> dirs s'"
proof -
  from run_completes [OF assms, of smp g cwd ext m0 ds]
  obtain s' where r: "run cfg cwd ext lib smp g m0 ds = Inr s'"
    and d: "dirs s' = makedirs (cwd @ [''results'', ''RNN'']) ds"
    and f: "files s' = [with_ext ext (cwd @ [''results'', ''RNN'', ''train_perplexity'']),
                 with_ext ext (cwd @ [''results'', ''RNN'', ''test'']),
                 with_ext ext (cwd @ [''results'', ''RNN'', ''drift''])]"
    and c: "filter writes_fs (calls s') =
       [Makedirs (cwd @ [''results'', ''RNN'']),
        Savefig (cwd @ [''results'', ''RNN'', ''train_perplexity'']),
        Savefig (cwd @ [''results'', ''RNN'', ''test'']),
        Savefig (cwd @ [''results'', ''RNN'', ''drift''])]"
    by blast
  have w: "with_ext ext (cwd @ [''results'', ''RNN'', n]) = cwd @ [''results'', ''RNN'', n @ ''.'' @ ext]" for n
    using with_ext_snoc [of ext "cwd @ [''results'', ''RNN'']" n] by simp
  have m: "cwd @ [''results'', ''RNN''] \<in> dirs s'" "ds \<subseteq> dirs s'"
    unfolding d by (rule makedirs_mem, simp) (rule makedirs_mono)
  show ?thesis
    using r d f c m unfolding w by blast
qed

text \<open>The theorem for a run of the small library instance with three samples, one batch
  element and two epochs in the working directory \<open>home\<close>.\<close>

theorem run_writes_three_images_witness:
  "0 \<le> SEQ_LEN (script_config\<lparr>SEQ_LEN := 3, BATCH_SIZE := 1, EPOCHS := 2\<rparr>) \<and>
   1 \<le> BATCH_SIZE (script_config\<lparr>SEQ_LEN := 3, BATCH_SIZE := 1, EPOCHS := 2\<rparr>) \<and>
   predicts_per_step toy_library
     (select_model (script_config\<lparr>SEQ_LEN := 3, BATCH_SIZE := 1, EPOCHS := 2\<rparr>)) \<and>
   (\<exists>s'. run (script_config\<lparr>SEQ_LEN := 3, BATCH_SIZE := 1, EPOCHS := 2\<rparr>) [''home''] ''png''
             toy_library real real \<lparr>weight = 1, training = True\<rparr> {} = Inr s' \<and>
      files s' = [[''home'', ''results'', ''RNN'', ''train_perplexity.png''],
                  [''home'', ''results'', ''RNN'', ''test.png''],
                  [''home'', ''results'', ''RNN'', ''drift.png'']] \<and>
      [''home'', ''results'', ''RNN''] \<in> dirs s')"
proof -
  let ?c = "script_config\<lparr>SEQ_LEN := 3, BATCH_SIZE := 1, EPOCHS := 2\<rparr>"
  have h: "0 \<le> SEQ_LEN ?c" "1 \<le> BATCH_SIZE ?c" "predicts_per_step toy_library (select_model ?c)"
    by (simp_all add: script_config_def toy_predicts)
  from run_writes_three_images [OF h, of "[''home'']" "''png''" real real "\<lparr>weight = 1, training = True\<rparr>" "{}"]
  show ?thesis using h by simp blast
qed

subsection \<open>The data set is built once and reused\<close>

text \<open>
  Claim C10. Under the same conditions the tensors \<^verbatim>\<open>y_in\<close> and \<^verbatim>\<open>y_out\<close> at
  the end of the run are the ones the data-set construction returned; every call of the
  model in the run (one per epoch, one for the test, five in the drift sweep) has that
  \<^verbatim>\<open>y_in\<close> as its input, and every call of the criterion has that \<^verbatim>\<open>y_out\<close>
  as its target.
\<close>

theorem dataset_tensors_are_reused:
  assumes "0 \<le> SEQ_LEN cfg" and "1 \<le> BATCH_SIZE cfg"
    and "predicts_per_step lib (select_model cfg)"
  shows "\<exists>yi yo g' s'.
     make_dataset cfg smp g = Inr ((yi, yo), g') \<and>
     run cfg cwd ext lib smp g m0 ds = Inr s' \<and>
     y_in s' = yi \<and> y_out s' = yo \<and>
     list_all (on_dataset yi yo) (calls s') \<and>
     length (filter is_model_call (calls s')) = nat (EPOCHS cfg) + 1 + 5"
proof -
  from run_completes [OF assms, of smp g cwd ext m0 ds]
  obtain yi yo g' s' where "make_dataset cfg smp g = Inr ((yi, yo), g')"
    "run cfg cwd ext lib smp g m0 ds = Inr s'" "y_in s' = yi" "y_out s' = yo"
    "list_all (on_dataset yi yo) (calls s')"
    "length (filter is_model_call (calls s')) = nat (EPOCHS cfg) + 6"
    by blast
  then show ?thesis by auto
qed

text \<open>The theorem for the same run: samples 0, 1, 2 give the input \<open>[0, 1]\<close> and the
  target \<open>[1, 2]\<close>, and the model is called \<open>2 + 1 + 5\<close> times.\<close>

theorem dataset_tensors_are_reused_witness:
  "0 \<le> SEQ_LEN (script_config\<lparr>SEQ_LEN := 3, BATCH_SIZE := 1, EPOCHS := 2\<rparr>) \<and>
   1 \<le> BATCH_SIZE (script_config\<lparr>SEQ_LEN := 3, BATCH_SIZE := 1, EPOCHS := 2\<rparr>) \<and>
   predicts_per_step toy_library
     (select_model (script_config\<lparr>SEQ_LEN := 3, BATCH_SIZE := 1, EPOCHS := 2\<rparr>)) \<and>
   (\<exists>s'. run (script_config\<lparr>SEQ_LEN := 3, BATCH_SIZE := 1, EPOCHS := 2\<rparr>) [''home''] ''png''
             toy_library real real \<lparr>weight = 1, training = True\<rparr> {} = Inr s' \<and>
      y_in s' = \<lparr>size0 = 2, size1 = 1, size2 = 1, entries = [0, 1]\<rparr> \<and>
      y_out s' = \<lparr>size0 = 2, size1 = 1, size2 = 1, entries = [1, 2]\<rparr> \<and>
      length (filter is_model_call (calls s')) = 8)"
proof -
  let ?c = "script_config\<lparr>SEQ_LEN := 3, BATCH_SIZE := 1, EPOCHS := 2\<rparr>"
  have h: "0 \<le> SEQ_LEN ?c" "1 \<le> BATCH_SIZE ?c" "predicts_per_step toy_library (select_model ?c)"
    by (simp_all add: script_config_def toy_predicts)
  have D: "make_dataset ?c real real =
     Inr ((\<lparr>size0 = 2, size1 = 1, size2 = 1, entries = [0, 1]\<rparr>,
           \<lparr>size0 = 2, size1 = 1, size2 = 1, entries = [1, 2]\<rparr>), (\<lambda>k. real (2 + (2 + k))))"
    by (simp add: make_dataset_def script_config_def signal_def py_slice_def slice_bound_def
        py_range_def rand_def batch_item_def roll_def stack_def unsqueeze2_def transpose01_def
        upt_conv_Cons Let_def)
  from dataset_tensors_are_reused [OF h, of real real "[''home'']" "''png''" "\<lparr>weight = 1, training = True\<rparr>" "{}"]
  show ?thesis using h D by (auto simp: script_config_def)
qed

section \<open>Properties of the forward pass\<close>



end
